theory Spec2Isabelle
  imports Complex_Main
begin

section \<open>ExitWave: position monitor, P\&L aggregation and exit engine\<close>

text \<open>
  A shallow embedding of \<^verbatim>\<open>exitwave/positions.py\<close>, \<^verbatim>\<open>exitwave/executor.py\<close>,
  \<^verbatim>\<open>exitwave/monitor.py\<close> and the venue list of \<^verbatim>\<open>exitwave/config.py\<close>.

  Conventions of the embedding:
  \<^item> Python \<^verbatim>\<open>int\<close> is \<open>int\<close>; Python \<^verbatim>\<open>float\<close> is \<open>real\<close>. The additions of
    \<^verbatim>\<open>sum()\<close> round: each one is followed by the rounding \<open>float_round\<close> of the
    platform (to the nearest double, in the interpreter), which no theorem restricts.
    Division and comparison of floats are exact in the model;
  \<^item> Python \<^verbatim>\<open>str\<close> is \<open>string\<close>, restricted to ASCII text;
  \<^item> a \<^verbatim>\<open>datetime\<close> in the IST zone is the number of microseconds since an IST
    midnight, an \<open>int\<close>;
  \<^item> the broker, the clock and the caller's thread are an environment of type \<open>'e\<close>
    that answers through the functions of a \<open>platform\<close> record; every function of the
    program takes a \<open>world\<close> (the environment and the trace of what the program did so
    far) and returns the new one;
  \<^item> an exception is a value \<open>Exn name text\<close>: the name of its class and its
    \<^verbatim>\<open>str()\<close>.
\<close>

subsection \<open>Positions (positions.py)\<close>

record fno_position =
  tradingsymbol :: string
  exchange :: string
  instrument_token :: int
  product' :: string
  quantity :: int
  average_price :: real
  last_price :: real
  pnl :: real
  m2m :: real
  buy_quantity :: int
  sell_quantity :: int
  buy_price :: real
  sell_price :: real

definition is_open :: "fno_position \<Rightarrow> bool" where
  "is_open p = (quantity p \<noteq> 0)"

definition side :: "fno_position \<Rightarrow> string" where
  "side p = (if quantity p > 0 then ''LONG''
             else if quantity p < 0 then ''SHORT''
             else ''FLAT'')"

text \<open>
  One entry of the broker's \<^verbatim>\<open>positions()["net"]\<close> list is a dictionary; a key may be
  missing, so every field is optional. \<^verbatim>\<open>pos.get(key, default)\<close> is \<open>dict_get\<close>.
\<close>

record raw_position =
  raw_tradingsymbol :: "string option"
  raw_exchange :: "string option"
  raw_instrument_token :: "int option"
  raw_product :: "string option"
  raw_quantity :: "int option"
  raw_average_price :: "real option"
  raw_last_price :: "real option"
  raw_pnl :: "real option"
  raw_m2m :: "real option"
  raw_buy_quantity :: "int option"
  raw_sell_quantity :: "int option"
  raw_buy_price :: "real option"
  raw_sell_price :: "real option"

record raw_positions =
  net :: "raw_position list option"
  day :: "raw_position list option"

definition dict_get :: "'a option \<Rightarrow> 'a \<Rightarrow> 'a" where
  "dict_get v d = (case v of None \<Rightarrow> d | Some x \<Rightarrow> x)"

definition make_fno_position :: "raw_position \<Rightarrow> fno_position" where
  "make_fno_position pos =
     \<lparr> tradingsymbol = dict_get (raw_tradingsymbol pos) '''',
       exchange = dict_get (raw_exchange pos) '''',
       instrument_token = dict_get (raw_instrument_token pos) 0,
       product' = dict_get (raw_product pos) '''',
       quantity = dict_get (raw_quantity pos) 0,
       average_price = dict_get (raw_average_price pos) 0,
       last_price = dict_get (raw_last_price pos) 0,
       pnl = dict_get (raw_pnl pos) 0,
       m2m = dict_get (raw_m2m pos) 0,
       buy_quantity = dict_get (raw_buy_quantity pos) 0,
       sell_quantity = dict_get (raw_sell_quantity pos) 0,
       buy_price = dict_get (raw_buy_price pos) 0,
       sell_price = dict_get (raw_sell_price pos) 0 \<rparr>"

text \<open>The loop of \<^verbatim>\<open>parse_fno_positions\<close> over \<^verbatim>\<open>raw_positions.get("net", [])\<close>.\<close>

fun parse_loop :: "raw_position list \<Rightarrow> string list \<Rightarrow> fno_position list" where
  "parse_loop [] exchanges = []"
| "parse_loop (pos # rest) exchanges =
     (if dict_get (raw_exchange pos) '''' \<notin> set exchanges
      then parse_loop rest exchanges
      else make_fno_position pos # parse_loop rest exchanges)"

definition parse_fno_positions :: "raw_positions \<Rightarrow> string list \<Rightarrow> fno_position list" where
  "parse_fno_positions raw exchanges = parse_loop (dict_get (net raw) []) exchanges"

text \<open>
  \<^verbatim>\<open>sum(p.pnl for p in positions)\<close>: starts at 0 and adds from the left. Every addition
  of two floats is rounded; \<open>fl\<close> is that rounding.
\<close>

definition calculate_total_pnl :: "(real \<Rightarrow> real) \<Rightarrow> fno_position list \<Rightarrow> real" where
  "calculate_total_pnl fl positions = foldl (\<lambda>acc x. fl (acc + x)) 0 (map pnl positions)"

subsection \<open>Exceptions, broker requests and the environment\<close>

datatype exn = Exn (exn_name: string) (exn_text: string)

record order_request =
  req_variety :: string
  req_exchange :: string
  req_tradingsymbol :: string
  req_transaction_type :: string
  req_quantity :: int
  req_product :: string
  req_order_type :: string
  req_validity :: string
  req_tag :: string

text \<open>One entry of the broker's order history: a dictionary with optional keys.\<close>

record order_entry =
  status :: "string option"
  status_message :: "string option"

text \<open>Constants of the kiteconnect client library.\<close>

definition TRANSACTION_TYPE_BUY :: string where "TRANSACTION_TYPE_BUY = ''BUY''"
definition TRANSACTION_TYPE_SELL :: string where "TRANSACTION_TYPE_SELL = ''SELL''"
definition VARIETY_REGULAR :: string where "VARIETY_REGULAR = ''regular''"
definition ORDER_TYPE_MARKET :: string where "ORDER_TYPE_MARKET = ''MARKET''"
definition VALIDITY_DAY :: string where "VALIDITY_DAY = ''DAY''"

record exit_order_result =
  res_tradingsymbol :: string
  res_exchange :: string
  transaction_type :: string
  res_quantity :: int
  order_id :: "string option"
  success :: bool
  error :: string

datatype level = INFO | WARNING | ERROR | CRITICAL

text \<open>One constructor for each logging statement of the program, with the values it prints.\<close>

datatype log_msg =
    DryRunExitOrder string int string
  | ExitOrderPlaced string int string string
  | ExitAttemptFailed int int string string
  | ExitFailed string int string
  | NoPositionsToExit
  | ExitingPositions bool int
  | AllPlaced bool int
  | SomeFailed bool int int
  | FailedResult exit_order_result
  | SkipVerification
  | Verifying
  | Confirmed string "string option"
  | Rejected string "string option" string
  | Pending string "string option" string
  | ErrorChecking "string option" exn
  | AlreadyRunning
  | MonitorStarted
  | Banner
  | MarketCloseReached
  | CooldownRemaining int
  | PollError exn
  | LoopEnded
  | NoOpenPositions
  | ThresholdBreached real int
  | Approaching real real int
  | Elevated real real int
  | Normal real int
  | PositionsSummary "fno_position list" real
  | InitiatingExit int int real
  | Exiting fno_position
  | ExitComplete int int
  | AuthenticationError
  | WillRetry int
  | SessionSummary int "real option" real real int "(int \<times> int) option"

text \<open>
  What the program does to the outside, in order. A call of the broker records the
  request and the broker's answer (\<open>Inl\<close> an exception, \<open>Inr\<close> the value returned).
\<close>

datatype event =
    Log level log_msg
  | Positions "exn + raw_positions"
  | PlaceOrder order_request "exn + string"
  | OrderHistory "string option" "exn + order_entry list"
  | Sleep int
  | WaitStop int bool
  | Now int
  | ThreadStart

record 'e platform =
  kite_positions :: "'e \<Rightarrow> (exn + raw_positions) \<times> 'e"
  kite_place_order :: "order_request \<Rightarrow> 'e \<Rightarrow> (exn + string) \<times> 'e"
  kite_order_history :: "string option \<Rightarrow> 'e \<Rightarrow> (exn + order_entry list) \<times> 'e"
  clock_now :: "'e \<Rightarrow> int \<times> 'e"
  stop_requested :: "int \<Rightarrow> 'e \<Rightarrow> bool \<times> 'e"
  float_round :: "real \<Rightarrow> real"

record 'e world =
  env :: 'e
  trace :: "event list"

definition emit :: "event \<Rightarrow> 'e world \<Rightarrow> 'e world" where
  "emit ev w = w\<lparr>trace := trace w @ [ev]\<rparr>"

definition logger :: "level \<Rightarrow> log_msg \<Rightarrow> 'e world \<Rightarrow> 'e world" where
  "logger l m w = emit (Log l m) w"

definition sleep :: "int \<Rightarrow> 'e world \<Rightarrow> 'e world" where
  "sleep n w = emit (Sleep n) w"

definition place_order :: "'e platform \<Rightarrow> order_request \<Rightarrow> 'e world \<Rightarrow> (exn + string) \<times> 'e world" where
  "place_order K req w =
     (case kite_place_order K req (env w) of
        (r, e') \<Rightarrow> (r, emit (PlaceOrder req r) (w\<lparr>env := e'\<rparr>)))"

definition order_history :: "'e platform \<Rightarrow> string option \<Rightarrow> 'e world \<Rightarrow> (exn + order_entry list) \<times> 'e world" where
  "order_history K oid w =
     (case kite_order_history K oid (env w) of
        (r, e') \<Rightarrow> (r, emit (OrderHistory oid r) (w\<lparr>env := e'\<rparr>)))"

definition fetch_positions :: "'e platform \<Rightarrow> 'e world \<Rightarrow> (exn + raw_positions) \<times> 'e world" where
  "fetch_positions K w =
     (case kite_positions K (env w) of
        (r, e') \<Rightarrow> (r, emit (Positions r) (w\<lparr>env := e'\<rparr>)))"

definition get_open_fno_positions ::
  "'e platform \<Rightarrow> string list \<Rightarrow> 'e world \<Rightarrow> (exn + fno_position list) \<times> 'e world" where
  "get_open_fno_positions K exchanges w =
     (case fetch_positions K w of
        (Inl ex, w') \<Rightarrow> (Inl ex, w')
      | (Inr raw, w') \<Rightarrow> (Inr (filter is_open (parse_fno_positions raw exchanges)), w'))"

subsection \<open>Exit engine (executor.py)\<close>

definition determine_exit_transaction :: "fno_position \<Rightarrow> string" where
  "determine_exit_transaction position =
     (if quantity position > 0 then TRANSACTION_TYPE_SELL
      else if quantity position < 0 then TRANSACTION_TYPE_BUY
      else '''')"

definition exit_request :: "fno_position \<Rightarrow> string \<Rightarrow> int \<Rightarrow> order_request" where
  "exit_request position tt qty =
     \<lparr> req_variety = VARIETY_REGULAR,
       req_exchange = exchange position,
       req_tradingsymbol = tradingsymbol position,
       req_transaction_type = tt,
       req_quantity = qty,
       req_product = product' position,
       req_order_type = ORDER_TYPE_MARKET,
       req_validity = VALIDITY_DAY,
       req_tag = ''ExitWave'' \<rparr>"

text \<open>
  The retry loop \<^verbatim>\<open>for attempt in range(1, max_retries + 1)\<close> of \<^verbatim>\<open>place_exit_order\<close>,
  over the attempt numbers still to run; the empty list is the code after the loop.
\<close>

fun order_attempts ::
  "'e platform \<Rightarrow> fno_position \<Rightarrow> string \<Rightarrow> int \<Rightarrow> int \<Rightarrow> int list \<Rightarrow>
   exit_order_result \<Rightarrow> 'e world \<Rightarrow> exit_order_result \<times> 'e world" where
  "order_attempts K position tt qty max_retries [] result w =
     (result, logger ERROR (ExitFailed (tradingsymbol position) max_retries (error result)) w)"
| "order_attempts K position tt qty max_retries (attempt # rest) result w =
     (case place_order K (exit_request position tt qty) w of
        (Inr oid, w1) \<Rightarrow>
          (result\<lparr>order_id := Some oid, success := True\<rparr>,
           logger INFO (ExitOrderPlaced tt qty (tradingsymbol position) oid) w1)
      | (Inl e, w1) \<Rightarrow>
          (let error_msg = exn_text e;
               w2 = logger WARNING
                      (ExitAttemptFailed attempt max_retries (tradingsymbol position) error_msg) w1;
               result' = result\<lparr>error := error_msg\<rparr>;
               w3 = (if attempt < max_retries then sleep 1 w2 else w2)
           in order_attempts K position tt qty max_retries rest result' w3))"

definition place_exit_order ::
  "'e platform \<Rightarrow> fno_position \<Rightarrow> bool \<Rightarrow> 'e world \<Rightarrow> exit_order_result \<times> 'e world" where
  "place_exit_order K position dry_run w =
     (let tt = determine_exit_transaction position;
          qty = \<bar>quantity position\<bar>
      in if tt = '''' then
           (\<lparr> res_tradingsymbol = tradingsymbol position,
              res_exchange = exchange position,
              transaction_type = ''NONE'',
              res_quantity = 0,
              order_id = None,
              success = False,
              error = ''Position has zero quantity, nothing to exit.'' \<rparr>, w)
         else
           (let result = \<lparr> res_tradingsymbol = tradingsymbol position,
                           res_exchange = exchange position,
                           transaction_type = tt,
                           res_quantity = qty,
                           order_id = None,
                           success = False,
                           error = '''' \<rparr>
            in if dry_run then
                 (result\<lparr>success := True, order_id := Some ''DRY_RUN''\<rparr>,
                  logger INFO (DryRunExitOrder tt qty (tradingsymbol position)) w)
               else
                 (let max_retries = 3
                  in order_attempts K position tt qty max_retries [1..max_retries] result w)))"

text \<open>The loop \<^verbatim>\<open>for pos in positions\<close> of \<^verbatim>\<open>exit_all_positions\<close>.\<close>

fun place_all ::
  "'e platform \<Rightarrow> fno_position list \<Rightarrow> bool \<Rightarrow> exit_order_result list \<Rightarrow> 'e world \<Rightarrow>
   exit_order_result list \<times> 'e world" where
  "place_all K [] dry_run results w = (results, w)"
| "place_all K (pos # rest) dry_run results w =
     (case place_exit_order K pos dry_run w of
        (result, w') \<Rightarrow> place_all K rest dry_run (results @ [result]) w')"

text \<open>The loop that logs the failed results at the end of \<^verbatim>\<open>exit_all_positions\<close>.\<close>

fun log_failed :: "exit_order_result list \<Rightarrow> 'e world \<Rightarrow> 'e world" where
  "log_failed [] w = w"
| "log_failed (r # rest) w =
     log_failed rest (if \<not> success r then logger ERROR (FailedResult r) w else w)"

definition exit_all_positions ::
  "'e platform \<Rightarrow> fno_position list \<Rightarrow> bool \<Rightarrow> 'e world \<Rightarrow> exit_order_result list \<times> 'e world" where
  "exit_all_positions K positions dry_run w =
     (if positions = [] then ([], logger INFO NoPositionsToExit w)
      else
        (let w1 = logger CRITICAL (ExitingPositions dry_run (int (length positions))) w
         in case place_all K positions dry_run [] w1 of
              (results, w2) \<Rightarrow>
                (let successful = int (length (filter success results));
                     failed = int (length (filter (\<lambda>r. \<not> success r) results))
                 in if failed = 0
                    then (results, logger INFO (AllPlaced dry_run successful) w2)
                    else (results,
                          log_failed results
                            (logger ERROR (SomeFailed dry_run successful failed) w2)))))"

text \<open>Python's truth value of \<^verbatim>\<open>r.success and r.order_id\<close>.\<close>

definition placed :: "exit_order_result \<Rightarrow> bool" where
  "placed r = (success r \<and> (case order_id r of None \<Rightarrow> False | Some s \<Rightarrow> s \<noteq> ''''))"

text \<open>
  The loop \<^verbatim>\<open>for result in successful_results\<close> of \<^verbatim>\<open>verify_exit_orders\<close>, with the
  flag \<^verbatim>\<open>all_completed\<close> as accumulator.
\<close>

fun verify_loop ::
  "'e platform \<Rightarrow> exit_order_result list \<Rightarrow> bool \<Rightarrow> 'e world \<Rightarrow> bool \<times> 'e world" where
  "verify_loop K [] all_completed w = (all_completed, w)"
| "verify_loop K (result # rest) all_completed w =
     (case order_history K (order_id result) w of
        (Inr history, w1) \<Rightarrow>
          (if history \<noteq> [] then
             (let latest = last history;
                  st = dict_get (status latest) ''UNKNOWN''
              in if st = ''COMPLETE'' then
                   verify_loop K rest all_completed
                     (logger INFO (Confirmed (res_tradingsymbol result) (order_id result)) w1)
                 else if st = ''REJECTED'' then
                   verify_loop K rest False
                     (logger ERROR (Rejected (res_tradingsymbol result) (order_id result)
                        (dict_get (status_message latest) '''')) w1)
                 else
                   verify_loop K rest False
                     (logger WARNING (Pending (res_tradingsymbol result) (order_id result) st) w1))
           else verify_loop K rest all_completed w1)
      | (Inl e, w1) \<Rightarrow>
          verify_loop K rest False (logger ERROR (ErrorChecking (order_id result) e) w1))"

definition verify_exit_orders ::
  "'e platform \<Rightarrow> exit_order_result list \<Rightarrow> bool \<Rightarrow> 'e world \<Rightarrow> bool \<times> 'e world" where
  "verify_exit_orders K results dry_run w =
     (if dry_run then (True, logger INFO SkipVerification w)
      else
        (let successful_results = filter placed results
         in if successful_results = [] then (False, w)
            else verify_loop K successful_results True (sleep 2 (logger INFO Verifying w))))"

subsection \<open>Strings\<close>


definition lower_char :: "char \<Rightarrow> char" where
  "lower_char c =
     (let n = (of_char c :: nat)
      in if 65 \<le> n \<and> n \<le> 90 then char_of (n + 32) else c)"


definition lower :: "string \<Rightarrow> string" where
  "lower s = map lower_char s"



fun split :: "string \<Rightarrow> char \<Rightarrow> string list" where
  "split [] sep = [[]]"
| "split (c # cs) sep =
     (if c = sep then [] # split cs sep
      else (case split cs sep of
              [] \<Rightarrow> [[c]]
            | x # xs \<Rightarrow> (c # x) # xs))"

fun starts_with :: "string \<Rightarrow> string \<Rightarrow> bool" where
  "starts_with s [] = True"
| "starts_with [] (p # ps) = False"
| "starts_with (c # cs) (p # ps) = (c = p \<and> starts_with cs ps)"

fun contains :: "string \<Rightarrow> string \<Rightarrow> bool" where
  "contains [] sub = (sub = [])"
| "contains (c # cs) sub = (starts_with (c # cs) sub \<or> contains cs sub)"

subsection \<open>Configuration (config.py)\<close>

record kite_credentials =
  api_key :: string
  api_secret :: string
  access_token :: string

record exit_wave_config =
  credentials :: kite_credentials
  max_loss :: real
  poll_interval :: int
  market_close :: string
  exchanges :: "string list"
  dry_run :: bool
  force_login :: bool
  manual_login :: bool
  project_root :: string
  log_dir :: string
  redirect_port :: int


subsection \<open>Position monitor (monitor.py)\<close>

text \<open>
  The fields of \<^verbatim>\<open>PositionMonitor\<close>, without the leading underscore. The thread object is
  \<open>None\<close> before the first start and \<open>Some alive\<close> afterwards; the stop event is its flag.
  The broker handle and the logger are the platform and the trace.
\<close>

record position_monitor =
  config :: exit_wave_config
  close_hour :: int
  close_minute :: int
  thread :: "bool option"
  stop_event :: bool
  exit_count :: int
  all_exit_results :: "exit_order_result list"
  exited_symbols :: "string set"
  last_exit_time :: "int option"
  exit_cooldown :: int
  poll_count :: int
  last_pnl :: "real option"
  peak_loss :: real

text \<open>
  The constructor, from the configuration and the two numbers that \<^verbatim>\<open>__init__\<close> reads out
  of the \<^verbatim>\<open>market_close\<close> text.
\<close>

definition new_monitor :: "exit_wave_config \<Rightarrow> int \<Rightarrow> int \<Rightarrow> position_monitor" where
  "new_monitor cfg hour minute =
     \<lparr> config = cfg,
       close_hour = hour,
       close_minute = minute,
       thread = None,
       stop_event = False,
       exit_count = 0,
       all_exit_results = [],
       exited_symbols = {},
       last_exit_time = None,
       exit_cooldown = 30,
       poll_count = 0,
       last_pnl = None,
       peak_loss = 0 \<rparr>"

definition is_running :: "position_monitor \<Rightarrow> bool" where
  "is_running m = (case thread m of None \<Rightarrow> False | Some alive \<Rightarrow> alive)"

definition has_exited :: "position_monitor \<Rightarrow> bool" where
  "has_exited m = (exit_count m > 0)"

text \<open>
  \<^verbatim>\<open>start\<close>. Creating and starting the thread is the event \<open>ThreadStart\<close>; the thread then
  runs \<open>thread_run\<close> below.
\<close>

definition start :: "position_monitor \<Rightarrow> 'e world \<Rightarrow> position_monitor \<times> 'e world" where
  "start m w =
     (if is_running m then (m, logger WARNING AlreadyRunning w)
      else
        (m\<lparr> stop_event := False,
            exit_count := 0,
            all_exit_results := [],
            exited_symbols := {},
            last_exit_time := None,
            poll_count := 0,
            peak_loss := 0,
            thread := Some True \<rparr>,
         logger INFO MonitorStarted (emit ThreadStart w)))"

text \<open>\<^verbatim>\<open>datetime.now(IST)\<close>: the next reading of the clock.\<close>

definition now :: "'e platform \<Rightarrow> 'e world \<Rightarrow> int \<times> 'e world" where
  "now K w =
     (case clock_now K (env w) of
        (t, e') \<Rightarrow> (t, emit (Now t) (w\<lparr>env := e'\<rparr>)))"

text \<open>
  \<^verbatim>\<open>self._stop_event.wait(timeout=...)\<close>. When the flag is set the call returns at once.
  Otherwise the worker sleeps, and the environment answers whether the caller's thread
  sets the flag (by \<^verbatim>\<open>stop()\<close>) before the timeout runs out.
\<close>

definition stop_event_wait ::
  "'e platform \<Rightarrow> int \<Rightarrow> position_monitor \<Rightarrow> 'e world \<Rightarrow> position_monitor \<times> 'e world" where
  "stop_event_wait K timeout m w =
     (if stop_event m then (m, emit (WaitStop timeout True) w)
      else
        (case stop_requested K timeout (env w) of
           (b, e') \<Rightarrow> (m\<lparr>stop_event := b\<rparr>, emit (WaitStop timeout b) (w\<lparr>env := e'\<rparr>))))"

definition usec_per_day :: int where
  "usec_per_day = 86400000000"

text \<open>
  \<^verbatim>\<open>_is_market_open\<close>. \<^verbatim>\<open>now.replace(hour=..., minute=..., second=0, microsecond=0)\<close>
  raises ValueError for an hour or a minute out of range.
\<close>

definition is_market_open ::
  "'e platform \<Rightarrow> position_monitor \<Rightarrow> 'e world \<Rightarrow> (exn + bool) \<times> 'e world" where
  "is_market_open K m w =
     (case now K w of
        (t, w1) \<Rightarrow>
          (if close_hour m < 0 \<or> 23 < close_hour m then
             (Inl (Exn ''ValueError'' ''hour must be in 0..23''), w1)
           else if close_minute m < 0 \<or> 59 < close_minute m then
             (Inl (Exn ''ValueError'' ''minute must be in 0..59''), w1)
           else
             (let close_time = (t - t mod usec_per_day)
                     + (close_hour m * 3600 + close_minute m * 60) * 1000000
              in (Inr (t < close_time), w1))))"

text \<open>
  \<^verbatim>\<open>_trigger_exit\<close>. The two loops over the positions are folds: one logs each
  position, the other adds its symbol to the set of exited symbols.
\<close>

definition trigger_exit ::
  "'e platform \<Rightarrow> position_monitor \<Rightarrow> fno_position list \<Rightarrow> real \<Rightarrow> 'e world \<Rightarrow>
   position_monitor \<times> 'e world" where
  "trigger_exit K m positions total_pnl w =
     (let m1 = m\<lparr>exit_count := exit_count m + 1\<rparr>;
          w1 = logger CRITICAL
                 (InitiatingExit (exit_count m1) (int (length positions)) total_pnl) w;
          w2 = fold (\<lambda>pos. logger INFO (Exiting pos)) positions w1
      in case exit_all_positions K positions (dry_run (config m1)) w2 of
           (results, w3) \<Rightarrow>
             (let m2 = m1\<lparr>all_exit_results := all_exit_results m1 @ results\<rparr>;
                  m3 = m2\<lparr>exited_symbols :=
                          fold (\<lambda>pos S. insert (tradingsymbol pos) S) positions
                            (exited_symbols m2)\<rparr>;
                  w4 = (if \<not> dry_run (config m3)
                        then snd (verify_exit_orders K results (dry_run (config m3)) w3)
                        else w3)
              in case now K w4 of
                   (t, w5) \<Rightarrow>
                     (m3\<lparr>last_exit_time := Some t\<rparr>,
                      logger INFO (ExitComplete (exit_count m3) (exit_cooldown m3)) w5)))"

text \<open>
  The expression \<^verbatim>\<open>abs(total_pnl) / config.max_loss if total_pnl < 0 else 0\<close> of
  \<^verbatim>\<open>_poll_positions\<close>; the division raises for a threshold of zero.
\<close>

definition loss_ratio :: "real \<Rightarrow> real \<Rightarrow> exn + real" where
  "loss_ratio total_pnl threshold =
     (if total_pnl < 0
      then (if threshold = 0 then Inl (Exn ''ZeroDivisionError'' ''float division by zero'')
            else Inr (\<bar>total_pnl\<bar> / threshold))
      else Inr 0)"

text \<open>
  \<^verbatim>\<open>_poll_positions\<close>. The first component of the result is the exception that leaves
  the function, if any.
\<close>

definition poll_positions ::
  "'e platform \<Rightarrow> position_monitor \<Rightarrow> 'e world \<Rightarrow> exn option \<times> position_monitor \<times> 'e world" where
  "poll_positions K m w =
     (let m1 = m\<lparr>poll_count := poll_count m + 1\<rparr>
      in case get_open_fno_positions K (exchanges (config m1)) w of
           (Inl e, w1) \<Rightarrow> (Some e, m1, w1)
         | (Inr positions, w1) \<Rightarrow>
             (if positions = [] then
                (None, m1,
                 if poll_count m1 mod 6 = 1 then logger INFO NoOpenPositions w1 else w1)
              else
                (let total_pnl = calculate_total_pnl (float_round K) positions;
                     m2 = m1\<lparr>last_pnl := Some total_pnl\<rparr>;
                     m3 = (if total_pnl < peak_loss m2 then m2\<lparr>peak_loss := total_pnl\<rparr> else m2)
                 in case now K w1 of
                      (now_str, w2) \<Rightarrow>
                        (let position_count = int (length positions)
                         in case loss_ratio total_pnl (max_loss (config m3)) of
                              Inl e \<Rightarrow> (Some e, m3, w2)
                            | Inr ratio \<Rightarrow>
                                (if ratio \<ge> 1 then
                                   (case trigger_exit K m3 positions total_pnl
                                           (logger CRITICAL
                                              (ThresholdBreached total_pnl position_count) w2) of
                                      (m4, w3) \<Rightarrow> (None, m4, w3))
                                 else
                                   (let w3 =
                                      (if ratio \<ge> 8 / 10 then
                                         logger WARNING (Approaching total_pnl ratio position_count) w2
                                       else if ratio \<ge> 5 / 10 then
                                         logger WARNING (Elevated total_pnl ratio position_count) w2
                                       else
                                         logger INFO (Normal total_pnl position_count) w2)
                                    in (None, m3,
                                        if poll_count m3 mod 30 = 0
                                        then logger INFO (PositionsSummary positions total_pnl) w3
                                        else w3)))))))"

text \<open>
  \<^verbatim>\<open>_handle_poll_error\<close>: the test
  \<^verbatim>\<open>"Token" in error_name or "token" in str(error).lower()\<close> and its two branches.
\<close>

definition is_token_error :: "exn \<Rightarrow> bool" where
  "is_token_error e = (contains (exn_name e) ''Token'' \<or> contains (lower (exn_text e)) ''token'')"

definition handle_poll_error ::
  "'e platform \<Rightarrow> position_monitor \<Rightarrow> exn \<Rightarrow> 'e world \<Rightarrow> position_monitor \<times> 'e world" where
  "handle_poll_error K m e w =
     (if is_token_error e then
        (m\<lparr>stop_event := True\<rparr>, logger ERROR AuthenticationError w)
      else
        stop_event_wait K (poll_interval (config m)) m
          (logger WARNING (WillRetry (poll_interval (config m) * 2)) w))"

definition print_session_summary :: "position_monitor \<Rightarrow> 'e world \<Rightarrow> 'e world" where
  "print_session_summary m w =
     logger INFO
       (SessionSummary (poll_count m) (last_pnl m) (peak_loss m) (- max_loss (config m))
          (exit_count m)
          (if all_exit_results m \<noteq> []
           then Some (int (length (filter success (all_exit_results m))),
                      int (length (filter (\<lambda>r. \<not> success r) (all_exit_results m))))
           else None)) w"

text \<open>
  The end of the loop body of \<^verbatim>\<open>_monitor_loop\<close>: the poll inside \<^verbatim>\<open>try\<close>, the handler
  of \<^verbatim>\<open>except Exception\<close>, and the wait for the next poll.
\<close>

definition poll_step ::
  "'e platform \<Rightarrow> position_monitor \<Rightarrow> 'e world \<Rightarrow> position_monitor \<times> 'e world" where
  "poll_step K m w =
     (case poll_positions K m w of
        (None, m1, w1) \<Rightarrow> stop_event_wait K (poll_interval (config m1)) m1 w1
      | (Some e, m1, w1) \<Rightarrow>
          (case handle_poll_error K m1 e (logger ERROR (PollError e) w1) of
             (m2, w2) \<Rightarrow> stop_event_wait K (poll_interval (config m2)) m2 w2))"

text \<open>\<^verbatim>\<open>int(x)\<close> of a float: rounding towards zero.\<close>

definition py_int :: "real \<Rightarrow> int" where
  "py_int x = (if x \<ge> 0 then \<lfloor>x\<rfloor> else \<lceil>x\<rceil>)"

text \<open>
  One pass through the body of \<^verbatim>\<open>while not self._stop_event.is_set()\<close>: it ends with
  the next pass (\<open>Next\<close>, also after \<^verbatim>\<open>continue\<close>), with \<^verbatim>\<open>break\<close>, or with an exception
  that nothing catches.
\<close>

datatype flow = Next | Break | Raised exn

definition loop_body ::
  "'e platform \<Rightarrow> position_monitor \<Rightarrow> 'e world \<Rightarrow> flow \<times> position_monitor \<times> 'e world" where
  "loop_body K m w =
     (case is_market_open K m w of
        (Inl e, w1) \<Rightarrow> (Raised e, m, w1)
      | (Inr False, w1) \<Rightarrow> (Break, m, logger INFO MarketCloseReached w1)
      | (Inr True, w1) \<Rightarrow>
          (case last_exit_time m of
             None \<Rightarrow> (case poll_step K m w1 of (m', w') \<Rightarrow> (Next, m', w'))
           | Some t0 \<Rightarrow>
               (case now K w1 of
                  (t, w2) \<Rightarrow>
                    (let elapsed = real_of_int (t - t0) / 1000000
                     in if elapsed < real_of_int (exit_cooldown m) then
                          (let remaining = py_int (real_of_int (exit_cooldown m) - elapsed);
                               w3 = (if remaining mod 10 = 0 \<and> remaining > 0
                                     then logger INFO (CooldownRemaining remaining) w2
                                     else w2)
                           in case stop_event_wait K 1 m w3 of (m', w') \<Rightarrow> (Next, m', w'))
                        else
                          (case poll_step K m w2 of (m', w') \<Rightarrow> (Next, m', w'))))))"

text \<open>
  The \<^verbatim>\<open>while\<close> loop, with fuel: \<open>None\<close> when the passes allowed are used up before the
  loop ends. The result carries the exception that ended the loop, if one did.
\<close>

fun monitor_while ::
  "nat \<Rightarrow> 'e platform \<Rightarrow> position_monitor \<Rightarrow> 'e world \<Rightarrow>
   (exn option \<times> position_monitor \<times> 'e world) option" where
  "monitor_while 0 K m w = None"
| "monitor_while (Suc fuel) K m w =
     (if stop_event m then Some (None, m, w)
      else
        (case loop_body K m w of
           (Next, m', w') \<Rightarrow> monitor_while fuel K m' w'
         | (Break, m', w') \<Rightarrow> Some (None, m', w')
         | (Raised e, m', w') \<Rightarrow> Some (Some e, m', w')))"

definition monitor_loop ::
  "nat \<Rightarrow> 'e platform \<Rightarrow> position_monitor \<Rightarrow> 'e world \<Rightarrow>
   (exn option \<times> position_monitor \<times> 'e world) option" where
  "monitor_loop fuel K m w =
     (case monitor_while fuel K m (logger INFO Banner w) of
        None \<Rightarrow> None
      | Some (Some e, m', w') \<Rightarrow> Some (Some e, m', w')
      | Some (None, m', w') \<Rightarrow>
          Some (None, m', print_session_summary m' (logger INFO LoopEnded w')))"

text \<open>The thread started by \<open>start\<close>: it runs the loop and is no longer alive afterwards.\<close>

definition thread_run ::
  "nat \<Rightarrow> 'e platform \<Rightarrow> position_monitor \<Rightarrow> 'e world \<Rightarrow>
   (exn option \<times> position_monitor \<times> 'e world) option" where
  "thread_run fuel K m w =
     (case monitor_loop fuel K m w of
        None \<Rightarrow> None
      | Some (r, m', w') \<Rightarrow> Some (r, m'\<lparr>thread := Some False\<rparr>, w'))"

subsection \<open>Reading a trace\<close>

text \<open>The events a function added to the trace, given the world before and after.\<close>

definition new_events :: "'e world \<Rightarrow> 'e world \<Rightarrow> event list" where
  "new_events w w' = drop (length (trace w)) (trace w')"

fun is_log :: "event \<Rightarrow> bool" where
  "is_log (Log l m) = True"
| "is_log ev = False"

fun is_broker_call :: "event \<Rightarrow> bool" where
  "is_broker_call (Positions a) = True"
| "is_broker_call (PlaceOrder req a) = True"
| "is_broker_call (OrderHistory oid a) = True"
| "is_broker_call ev = False"

fun is_fetch :: "event \<Rightarrow> bool" where
  "is_fetch (Positions a) = True"
| "is_fetch ev = False"

text \<open>The broker's answers to the orders placed, in order.\<close>

fun order_answers :: "event list \<Rightarrow> (exn + string) list" where
  "order_answers [] = []"
| "order_answers (PlaceOrder req a # evs) = a # order_answers evs"
| "order_answers (ev # evs) = order_answers evs"

text \<open>The order identifiers whose history was asked for, in order.\<close>

fun history_lookups :: "event list \<Rightarrow> string option list" where
  "history_lookups [] = []"
| "history_lookups (OrderHistory oid a # evs) = oid # history_lookups evs"
| "history_lookups (ev # evs) = history_lookups evs"

text \<open>The broker's answers to these lookups, in order.\<close>

fun history_answers :: "event list \<Rightarrow> (exn + order_entry list) list" where
  "history_answers [] = []"
| "history_answers (OrderHistory oid a # evs) = a # history_answers evs"
| "history_answers (ev # evs) = history_answers evs"

text \<open>
  The answers to a lookup that leave the flag \<^verbatim>\<open>all_completed\<close> of
  \<^verbatim>\<open>verify_exit_orders\<close> as it is: a history whose last entry has the status COMPLETE,
  and an empty history.
\<close>

definition keeps_completed :: "exn + order_entry list \<Rightarrow> bool" where
  "keeps_completed a =
     (case a of
        Inl e \<Rightarrow> False
      | Inr history \<Rightarrow> history = [] \<or> dict_get (status (last history)) ''UNKNOWN'' = ''COMPLETE'')"

text \<open>A list with a separator between any two neighbours.\<close>

fun intersperse :: "'a \<Rightarrow> 'a list \<Rightarrow> 'a list" where
  "intersperse s [] = []"
| "intersperse s [x] = [x]"
| "intersperse s (x # y # ys) = x # s # intersperse s (y # ys)"

subsection \<open>A scripted environment and sample data\<close>

text \<open>
  An environment that answers from lists prepared in advance, one list for each
  function of the platform; a list that is used up answers with a fixed default. Its
  rounding leaves every number as it is, as the rounding to a double does for the sums
  of the sample amounts below (whole numbers of a few digits).
\<close>

record script =
  positions_script :: "(exn + raw_positions) list"
  orders_script :: "(exn + string) list"
  histories_script :: "(exn + order_entry list) list"
  clock_script :: "int list"
  stops_script :: "bool list"

definition scripted :: "script platform" where
  "scripted =
     \<lparr> kite_positions = (\<lambda>e. case positions_script e of
          [] \<Rightarrow> (Inr \<lparr>net = None, day = None\<rparr>, e)
        | a # as \<Rightarrow> (a, e\<lparr>positions_script := as\<rparr>)),
       kite_place_order = (\<lambda>req e. case orders_script e of
          [] \<Rightarrow> (Inl (Exn ''NetworkException'' ''no answer''), e)
        | a # as \<Rightarrow> (a, e\<lparr>orders_script := as\<rparr>)),
       kite_order_history = (\<lambda>oid e. case histories_script e of
          [] \<Rightarrow> (Inr [], e)
        | a # as \<Rightarrow> (a, e\<lparr>histories_script := as\<rparr>)),
       clock_now = (\<lambda>e. case clock_script e of
          [] \<Rightarrow> (0, e)
        | t # ts \<Rightarrow> (t, e\<lparr>clock_script := ts\<rparr>)),
       stop_requested = (\<lambda>timeout e. case stops_script e of
          [] \<Rightarrow> (False, e)
        | b # bs \<Rightarrow> (b, e\<lparr>stops_script := bs\<rparr>)),
       float_round = (\<lambda>x. x) \<rparr>"

definition quiet :: script where
  "quiet = \<lparr> positions_script = [], orders_script = [], histories_script = [],
             clock_script = [], stops_script = [] \<rparr>"

definition world0 :: "script \<Rightarrow> script world" where
  "world0 e = \<lparr> env = e, trace = [] \<rparr>"

text \<open>A broker dictionary with the keys symbol, venue, product, quantity and pnl.\<close>

definition raw_entry :: "string \<Rightarrow> string \<Rightarrow> int \<Rightarrow> real \<Rightarrow> raw_position" where
  "raw_entry symbol venue qty p =
     \<lparr> raw_tradingsymbol = Some symbol, raw_exchange = Some venue,
       raw_instrument_token = None, raw_product = Some ''NRML'',
       raw_quantity = Some qty, raw_average_price = None, raw_last_price = None,
       raw_pnl = Some p, raw_m2m = None, raw_buy_quantity = None,
       raw_sell_quantity = None, raw_buy_price = None, raw_sell_price = None \<rparr>"

definition sample_position :: "string \<Rightarrow> string \<Rightarrow> int \<Rightarrow> real \<Rightarrow> fno_position" where
  "sample_position symbol venue qty p = make_fno_position (raw_entry symbol venue qty p)"

definition snapshot :: "raw_position list \<Rightarrow> raw_positions" where
  "snapshot entries = \<lparr> net = Some entries, day = None \<rparr>"

definition sample_config :: "real \<Rightarrow> bool \<Rightarrow> exit_wave_config" where
  "sample_config threshold dry =
     \<lparr> credentials = \<lparr> api_key = ''key'', api_secret = ''secret'', access_token = '''' \<rparr>,
       max_loss = threshold, poll_interval = 10, market_close = ''15:30'',
       exchanges = [''NFO'', ''BFO''], dry_run = dry, force_login = False,
       manual_login = False, project_root = ''.'', log_dir = ''logs'',
       redirect_port = 5678 \<rparr>"

definition sample_monitor :: "real \<Rightarrow> bool \<Rightarrow> position_monitor" where
  "sample_monitor threshold dry = new_monitor (sample_config threshold dry) 15 30"

definition placed_result :: "string \<Rightarrow> string \<Rightarrow> exit_order_result" where
  "placed_result symbol oid =
     \<lparr> res_tradingsymbol = symbol, res_exchange = ''NFO'', transaction_type = ''SELL'',
       res_quantity = 50, order_id = Some oid, success = True, error = '''' \<rparr>"

text \<open>Ten o'clock in the morning, in microseconds after midnight.\<close>

definition ten_am :: int where
  "ten_am = 36000000000"

section \<open>Properties\<close>

subsection \<open>Auxiliary facts\<close>


lemma is_open_make: "is_open (make_fno_position pos) = (dict_get (raw_quantity pos) 0 \<noteq> 0)"
  by (simp add: is_open_def make_fno_position_def)

lemma pnl_make: "pnl (make_fno_position pos) = dict_get (raw_pnl pos) 0"
  by (simp add: make_fno_position_def)

lemma quantity_sample [simp]: "quantity (sample_position symbol venue qty p) = qty"
  by (simp add: sample_position_def make_fno_position_def raw_entry_def dict_get_def)

lemma upto_1_3: "[1..3] = [1, 2, 3::int]"
  by (simp add: upto.simps)


text \<open>No function of the exit path fetches positions.\<close>

lemma logger_fetch [simp]:
  "filter is_fetch (trace (logger l msg w)) = filter is_fetch (trace w)"
  by (simp add: logger_def emit_def)

lemma sleep_fetch [simp]:
  "filter is_fetch (trace (sleep n w)) = filter is_fetch (trace w)"
  by (simp add: sleep_def emit_def)











lemma trigger_exit_fields:
  "trigger_exit K m ps tot w = (m', w') \<Longrightarrow>
     poll_count m' = poll_count m \<and> config m' = config m \<and> stop_event m' = stop_event m \<and>
     last_pnl m' = last_pnl m \<and> peak_loss m' = peak_loss m \<and>
     exit_cooldown m' = exit_cooldown m \<and> exit_count m' = exit_count m + 1"
  by (auto simp add: trigger_exit_def Let_def split: prod.splits)

subsection \<open>Closing transaction\<close>

text \<open>
  Claim C2. The closing transaction of a position is SELL for a positive quantity and BUY
  for a negative one. For a quantity of zero it is the empty text, and then
  \<open>place_exit_order\<close>, with or without dry run, returns a failed result with an error
  text that is not empty and no order identifier, and leaves the world as it was: no
  order reaches the broker and nothing is logged.
\<close>

theorem exit_transaction_by_sign:
  "(quantity p > 0 \<longrightarrow> determine_exit_transaction p = ''SELL'') \<and>
   (quantity p < 0 \<longrightarrow> determine_exit_transaction p = ''BUY'') \<and>
   (quantity p = 0 \<longrightarrow> determine_exit_transaction p = '''' \<and>
      (case place_exit_order K p dry w of
         (r, w') \<Rightarrow> \<not> success r \<and> error r \<noteq> '''' \<and> order_id r = None \<and> w' = w))"
  by (simp add: determine_exit_transaction_def place_exit_order_def
      TRANSACTION_TYPE_SELL_def TRANSACTION_TYPE_BUY_def)

theorem exit_transaction_by_sign_witness:
  "determine_exit_transaction (sample_position ''X'' ''NFO'' 50 (-3000)) = ''SELL'' \<and>
   determine_exit_transaction (sample_position ''Y'' ''NFO'' (-25) (-2500)) = ''BUY'' \<and>
   determine_exit_transaction (sample_position ''Z'' ''NFO'' 0 0) = '''' \<and>
   (case place_exit_order scripted (sample_position ''Z'' ''NFO'' 0 0) False (world0 quiet) of
      (r, w') \<Rightarrow> \<not> success r \<and> error r \<noteq> '''' \<and> order_id r = None \<and> w' = world0 quiet)"
  using exit_transaction_by_sign [where p = "sample_position ''X'' ''NFO'' 50 (-3000)"]
    exit_transaction_by_sign [where p = "sample_position ''Y'' ''NFO'' (-25) (-2500)"]
    exit_transaction_by_sign [where p = "sample_position ''Z'' ''NFO'' 0 0" and K = scripted
      and dry = False and w = "world0 quiet"]
  by simp

subsection \<open>Aggregate P\&L\<close>



subsection \<open>Retry of an exit order\<close>

text \<open>
  Claim C6. For a position with a quantity other than zero and without dry run,
  \<open>place_exit_order\<close> places between one and three orders with the broker, all with the
  same request. Apart from log lines, what it does is these orders with a sleep of 1
  between any two of them, so it sleeps after every failed attempt but the last. Every
  attempt before the last one failed. If the last attempt succeeded, the result is a
  success with the order identifier of that attempt; if it failed, it was the third
  attempt and the result is a failure with the text of that last exception.
\<close>

theorem place_exit_order_retries:
  assumes "quantity p \<noteq> 0"
  shows "case place_exit_order K p False w of
           (r, w') \<Rightarrow>
             (let evs = new_events w w'; answers = order_answers evs
              in trace w' = trace w @ evs \<and>
                 1 \<le> length answers \<and> length answers \<le> 3 \<and>
                 filter (\<lambda>ev. \<not> is_log ev) evs
                   = intersperse (Sleep 1)
                       (map (PlaceOrder (exit_request p (determine_exit_transaction p) \<bar>quantity p\<bar>))
                          answers) \<and>
                 list_all isl (butlast answers) \<and>
                 (case last answers of
                    Inr oid \<Rightarrow> success r \<and> order_id r = Some oid
                  | Inl e \<Rightarrow> length answers = 3 \<and> \<not> success r \<and> order_id r = None
                              \<and> error r = exn_text e))"
proof -
  have tt: "determine_exit_transaction p \<noteq> ''''"
    using assms by (simp add: determine_exit_transaction_def
        TRANSACTION_TYPE_SELL_def TRANSACTION_TYPE_BUY_def)
  show ?thesis
    using tt
    by (simp add: place_exit_order_def Let_def upto_1_3 place_order_def logger_def sleep_def emit_def
        new_events_def split: prod.splits sum.splits)
qed

theorem place_exit_order_retries_witness:
  "quantity (sample_position ''X'' ''NFO'' 50 (-3000)) \<noteq> 0 \<and>
   (case place_exit_order scripted (sample_position ''X'' ''NFO'' 50 (-3000)) False
           (world0 (quiet\<lparr>orders_script :=
              [Inl (Exn ''NetworkException'' ''timeout''),
               Inl (Exn ''NetworkException'' ''reset''), Inr ''1003'']\<rparr>)) of
      (r, w') \<Rightarrow> success r \<and> order_id r = Some ''1003'' \<and> length (order_answers (trace w')) = 3)"
  using place_exit_order_retries [where p = "sample_position ''X'' ''NFO'' 50 (-3000)"
      and K = scripted
      and w = "world0 (quiet\<lparr>orders_script :=
              [Inl (Exn ''NetworkException'' ''timeout''),
               Inl (Exn ''NetworkException'' ''reset''), Inr ''1003'']\<rparr>)"]
  by (simp add: place_exit_order_def Let_def upto_1_3 place_order_def logger_def sleep_def emit_def
      new_events_def world0_def quiet_def scripted_def determine_exit_transaction_def
      TRANSACTION_TYPE_SELL_def)

subsection \<open>Dry run\<close>

lemma place_exit_order_dry:
  "place_exit_order K p True w = (r, w') \<Longrightarrow>
     (quantity p \<noteq> 0 \<longrightarrow> success r \<and> order_id r = Some ''DRY_RUN'') \<and>
     (quantity p = 0 \<longrightarrow> \<not> success r \<and> order_id r = None) \<and>
     env w' = env w \<and>
     filter is_broker_call (trace w') = filter is_broker_call (trace w)"
  by (auto simp add: place_exit_order_def Let_def determine_exit_transaction_def logger_def emit_def
      TRANSACTION_TYPE_SELL_def TRANSACTION_TYPE_BUY_def split: if_splits)

lemma place_all_dry:
  "place_all K ps True acc w = (results, w') \<Longrightarrow>
     (\<exists>rs. results = acc @ rs \<and>
        list_all2 (\<lambda>p r. (quantity p \<noteq> 0 \<longrightarrow> success r \<and> order_id r = Some ''DRY_RUN'') \<and>
                         (quantity p = 0 \<longrightarrow> \<not> success r \<and> order_id r = None)) ps rs) \<and>
     env w' = env w \<and>
     filter is_broker_call (trace w') = filter is_broker_call (trace w)"
proof (induction ps arbitrary: acc w)
  case Nil
  then show ?case by simp
next
  case (Cons p ps)
  obtain r w1 where step: "place_exit_order K p True w = (r, w1)"
    by (cases "place_exit_order K p True w")
  with Cons.prems have rest: "place_all K ps True (acc @ [r]) w1 = (results, w')"
    by simp
  from Cons.IH [OF rest] place_exit_order_dry [OF step]
  show ?case by auto
qed

lemma log_failed_env [simp]: "env (log_failed rs w) = env w"
  by (induction rs arbitrary: w) (simp_all add: logger_def emit_def)

lemma log_failed_calls [simp]:
  "filter is_broker_call (trace (log_failed rs w)) = filter is_broker_call (trace w)"
  by (induction rs arbitrary: w) (simp_all add: logger_def emit_def)

text \<open>
  Claim C7, as the code has it. With dry run, \<open>exit_all_positions\<close> returns one result
  for each position, in order. For a position with a quantity other than zero it is a
  success with the order identifier \<open>''DRY_RUN''\<close>; for a position with quantity zero it
  is the failed result of claim C2, since the test for a missing transaction comes before
  the test for dry run. No broker call is made for any list of positions: the
  environment is untouched and the trace gains no broker event.
\<close>

theorem dry_run_exit_all:
  "case exit_all_positions K ps True w of
     (results, w') \<Rightarrow>
       list_all2 (\<lambda>p r. (quantity p \<noteq> 0 \<longrightarrow> success r \<and> order_id r = Some ''DRY_RUN'') \<and>
                        (quantity p = 0 \<longrightarrow> \<not> success r \<and> order_id r = None)) ps results \<and>
       env w' = env w \<and>
       filter is_broker_call (trace w') = filter is_broker_call (trace w)"
proof (cases "ps = []")
  case True
  then show ?thesis by (simp add: exit_all_positions_def logger_def emit_def)
next
  case False
  obtain results w2 where pa:
    "place_all K ps True [] (logger CRITICAL (ExitingPositions True (int (length ps))) w) = (results, w2)"
    by (cases "place_all K ps True [] (logger CRITICAL (ExitingPositions True (int (length ps))) w)")
  have w1: "env (logger CRITICAL (ExitingPositions True (int (length ps))) w) = env w"
    "filter is_broker_call (trace (logger CRITICAL (ExitingPositions True (int (length ps))) w))
       = filter is_broker_call (trace w)"
    by (simp_all add: logger_def emit_def)
  from place_all_dry [OF pa] w1
  have "list_all2 (\<lambda>p r. (quantity p \<noteq> 0 \<longrightarrow> success r \<and> order_id r = Some ''DRY_RUN'') \<and>
                        (quantity p = 0 \<longrightarrow> \<not> success r \<and> order_id r = None)) ps results"
    and "env w2 = env w"
    and "filter is_broker_call (trace w2) = filter is_broker_call (trace w)"
    by auto
  with False pa show ?thesis
    by (simp add: exit_all_positions_def Let_def logger_def [of ERROR] logger_def [of INFO] emit_def)
qed

theorem dry_run_exit_all_witness:
  "case exit_all_positions scripted
          [sample_position ''X'' ''NFO'' 50 (-3000), sample_position ''Y'' ''NFO'' (-25) (-2500)]
          True (world0 quiet) of
     (results, w') \<Rightarrow>
       map success results = [True, True] \<and>
       map order_id results = [Some ''DRY_RUN'', Some ''DRY_RUN''] \<and>
       filter is_broker_call (trace w') = []"
  using dry_run_exit_all [where K = scripted and w = "world0 quiet"
      and ps = "[sample_position ''X'' ''NFO'' 50 (-3000), sample_position ''Y'' ''NFO'' (-25) (-2500)]"]
  by (auto simp add: world0_def list_all2_Cons1 split: prod.splits)

text \<open>
  Claim C7 as stated fails for a position with quantity zero: with dry run its result is
  not a success.
\<close>

theorem dry_run_zero_quantity_counterexample:
  "\<not> success (hd (fst (exit_all_positions scripted [sample_position ''Z'' ''NFO'' 0 0] True
                        (world0 quiet))))"
  by (simp add: exit_all_positions_def place_exit_order_def determine_exit_transaction_def
      Let_def logger_def emit_def)

subsection \<open>Verification of exit orders\<close>

lemma history_lookups_append:
  "history_lookups (xs @ ys) = history_lookups xs @ history_lookups ys"
  by (induction xs rule: history_lookups.induct) simp_all

lemma history_answers_append:
  "history_answers (xs @ ys) = history_answers xs @ history_answers ys"
  by (induction xs rule: history_answers.induct) simp_all

lemma verify_loop_result:
  "verify_loop K rs b w = (v, w') \<Longrightarrow>
     \<exists>evs. trace w' = trace w @ evs \<and>
       history_lookups evs = map order_id rs \<and>
       v = (b \<and> list_all keeps_completed (history_answers evs))"
proof (induction rs arbitrary: b w)
  case Nil
  then show ?case by simp
next
  case (Cons r rs)
  obtain a w1 where oh: "order_history K (order_id r) w = (a, w1)"
    by (cases "order_history K (order_id r) w")
  then have t1: "trace w1 = trace w @ [OrderHistory (order_id r) a]"
    by (auto simp add: order_history_def emit_def split: prod.splits)
  define b' where "b' = (b \<and> keeps_completed a)"
  obtain w2 where rest: "verify_loop K rs b' w2 = (v, w')"
    and t2: "\<exists>logs. trace w2 = trace w1 @ logs \<and> history_lookups logs = [] \<and> history_answers logs = []"
    using Cons.prems oh
    by (cases a)
      (auto simp add: b'_def keeps_completed_def Let_def logger_def emit_def split: if_splits)
  from t2 obtain logs where l: "trace w2 = trace w1 @ logs" "history_lookups logs = []"
    "history_answers logs = []"
    by blast
  from Cons.IH [OF rest] obtain evs where e: "trace w' = trace w2 @ evs"
    "history_lookups evs = map order_id rs"
    "v = (b' \<and> list_all keeps_completed (history_answers evs))"
    by blast
  have "trace w' = trace w @ (OrderHistory (order_id r) a # logs @ evs)"
    by (simp add: e(1) l(1) t1)
  moreover have "history_lookups (OrderHistory (order_id r) a # logs @ evs) = map order_id (r # rs)"
    by (simp add: history_lookups_append l(2) e(2))
  moreover have "v = (b \<and> list_all keeps_completed
                         (history_answers (OrderHistory (order_id r) a # logs @ evs)))"
    by (simp add: history_answers_append l(3) e(3) b'_def)
  ultimately show ?case by blast
qed

text \<open>
  What \<open>verify_exit_orders\<close> answers in general. With dry run it answers True and only
  logs. Without dry run and without a placed order (a success with an order identifier
  that is not empty) it answers False and does nothing. Otherwise it looks up the
  history of every placed order once, in order, also after a lookup that failed, and
  answers True exactly when every answer was a history that is empty or whose last entry
  has the status COMPLETE.
\<close>

lemma verify_exit_orders_result:
  "case verify_exit_orders K results dr w of
     (v, w') \<Rightarrow>
       (dr \<longrightarrow> v \<and> env w' = env w \<and> trace w' = trace w @ [Log INFO SkipVerification]) \<and>
       (\<not> dr \<and> filter placed results = [] \<longrightarrow> \<not> v \<and> w' = w) \<and>
       (\<not> dr \<and> filter placed results \<noteq> [] \<longrightarrow>
          history_lookups (new_events w w') = map order_id (filter placed results) \<and>
          v = list_all keeps_completed (history_answers (new_events w w')))"
proof (cases "dr \<or> filter placed results = []")
  case True
  then show ?thesis
    by (auto simp add: verify_exit_orders_def logger_def emit_def)
next
  case False
  obtain v w' where vl:
    "verify_loop K (filter placed results) True (sleep 2 (logger INFO Verifying w)) = (v, w')"
    by (cases "verify_loop K (filter placed results) True (sleep 2 (logger INFO Verifying w))")
  from verify_loop_result [OF vl] obtain evs where
    e: "trace w' = trace (sleep 2 (logger INFO Verifying w)) @ evs"
    "history_lookups evs = map order_id (filter placed results)"
    "v = list_all keeps_completed (history_answers evs)"
    by auto
  have n: "new_events w w' = [Log INFO Verifying, Sleep 2] @ evs"
    by (simp add: new_events_def e(1) sleep_def logger_def emit_def)
  show ?thesis
    using False
    by (simp add: verify_exit_orders_def Let_def vl n history_lookups_append
        history_answers_append e(2) e(3))
qed

text \<open>
  Claim C5. One placed order whose history the broker returns as an empty list: the
  order is looked up, no entry says COMPLETE, and \<open>verify_exit_orders\<close> answers True.
\<close>

theorem verify_empty_history:
  "case verify_exit_orders scripted [placed_result ''X'' ''1001''] False
          (world0 (quiet\<lparr>histories_script := [Inr []]\<rparr>)) of
     (verified, w') \<Rightarrow>
       verified \<and> trace w' = [Log INFO Verifying, Sleep 2, OrderHistory (Some ''1001'') (Inr [])]"
  by (simp add: verify_exit_orders_def placed_def placed_result_def Let_def order_history_def
      scripted_def world0_def quiet_def logger_def sleep_def emit_def)

subsection \<open>Venue filter\<close>



subsection \<open>Starting the monitor\<close>

text \<open>
  Claim C10. When the monitor is running, \<open>start\<close> returns the monitor unchanged (poll
  count, exit count, exited symbols, peak loss, history of results and all other fields),
  leaves the environment alone and only logs a warning: no thread is started. When the
  monitor is not running, \<open>start\<close> resets the session fields and starts one thread.
\<close>

theorem start_while_running:
  "(is_running m \<longrightarrow>
      (case start m w of
         (m', w') \<Rightarrow> m' = m \<and> env w' = env w \<and> trace w' = trace w @ [Log WARNING AlreadyRunning])) \<and>
   (\<not> is_running m \<longrightarrow>
      (case start m w of
         (m', w') \<Rightarrow>
           poll_count m' = 0 \<and> exit_count m' = 0 \<and> exited_symbols m' = {} \<and>
           peak_loss m' = 0 \<and> all_exit_results m' = [] \<and> last_exit_time m' = None \<and>
           \<not> stop_event m' \<and> is_running m' \<and>
           trace w' = trace w @ [ThreadStart, Log INFO MonitorStarted]))"
  by (simp add: start_def logger_def emit_def is_running_def)

theorem start_while_running_witness:
  "is_running ((sample_monitor 5000 False)\<lparr>thread := Some True, poll_count := 7, exit_count := 1\<rparr>) \<and>
   fst (start ((sample_monitor 5000 False)\<lparr>thread := Some True, poll_count := 7, exit_count := 1\<rparr>)
          (world0 quiet))
     = (sample_monitor 5000 False)\<lparr>thread := Some True, poll_count := 7, exit_count := 1\<rparr> \<and>
   \<not> is_running ((sample_monitor 5000 False)\<lparr>thread := Some False, poll_count := 7\<rparr>) \<and>
   poll_count (fst (start ((sample_monitor 5000 False)\<lparr>thread := Some False, poll_count := 7\<rparr>)
          (world0 quiet))) = 0"
  using start_while_running [where w = "world0 quiet"
      and m = "(sample_monitor 5000 False)\<lparr>thread := Some True, poll_count := 7, exit_count := 1\<rparr>"]
    start_while_running [where w = "world0 quiet"
      and m = "(sample_monitor 5000 False)\<lparr>thread := Some False, poll_count := 7\<rparr>"]
  by (auto simp add: is_running_def split: prod.splits)

subsection \<open>Threshold bands\<close>

text \<open>
  Claim C1. For a positive threshold and a snapshot with open positions, the ratio that
  \<open>poll_positions\<close> computes from the aggregate P\&L is \<open>\<bar>pnl\<bar> / threshold\<close> for a negative
  P\&L and 0 otherwise. The exit path runs if and only if the ratio is at least 1: then
  the result is that of \<open>trigger_exit\<close> and the exit count grows by one. Below 1 the
  monitor only gets its poll count, last P\&L and peak loss updated, whatever the band,
  the environment is left alone, and the trace gains one log line (and the summary on
  every 30th poll): a warning "approaching" for a ratio from 0.8, a warning for a ratio
  from 0.5 and below 0.8, an info line below 0.5.
\<close>

theorem threshold_bands:
  assumes "0 < max_loss (config m)"
    and "get_open_fno_positions K (exchanges (config m)) w = (Inr ps, w1)"
    and "ps \<noteq> []"
    and "now K w1 = (t, w2)"
  shows "let tot = calculate_total_pnl (float_round K) ps;
             ratio = (if tot < 0 then \<bar>tot\<bar> / max_loss (config m) else 0);
             n = int (length ps);
             m3 = m\<lparr>poll_count := poll_count m + 1, last_pnl := Some tot,
                    peak_loss := min tot (peak_loss m)\<rparr>
         in loss_ratio tot (max_loss (config m)) = Inr ratio \<and>
            (case poll_positions K m w of
               (r, m', w') \<Rightarrow>
                 r = None \<and>
                 (exit_count m' = exit_count m + 1) = (1 \<le> ratio) \<and>
                 (1 \<le> ratio \<longrightarrow>
                    (m', w') = trigger_exit K m3 ps tot
                                 (logger CRITICAL (ThresholdBreached tot n) w2)) \<and>
                 (ratio < 1 \<longrightarrow>
                    m' = m3 \<and> env w' = env w2 \<and>
                    (\<exists>band. trace w' = trace w2 @ band #
                               (if poll_count m3 mod 30 = 0
                                then [Log INFO (PositionsSummary ps tot)] else []) \<and>
                       (8 / 10 \<le> ratio \<longrightarrow> band = Log WARNING (Approaching tot ratio n)) \<and>
                       (5 / 10 \<le> ratio \<and> ratio < 8 / 10 \<longrightarrow>
                          band = Log WARNING (Elevated tot ratio n)) \<and>
                       (ratio < 5 / 10 \<longrightarrow> band = Log INFO (Normal tot n)))))"
proof -
  define tot where "tot = calculate_total_pnl (float_round K) ps"
  define ratio where "ratio = (if tot < 0 then \<bar>tot\<bar> / max_loss (config m) else 0)"
  define m3 where "m3 = m\<lparr>poll_count := poll_count m + 1, last_pnl := Some tot,
                    peak_loss := min tot (peak_loss m)\<rparr>"
  have lr: "loss_ratio tot (max_loss (config m)) = Inr ratio"
    using assms(1) by (simp add: loss_ratio_def ratio_def)
  have m3': "(if tot < peak_loss m
              then m\<lparr>poll_count := poll_count m + 1, last_pnl := Some tot, peak_loss := tot\<rparr>
              else m\<lparr>poll_count := poll_count m + 1, last_pnl := Some tot\<rparr>) = m3"
    by (simp add: m3_def min_def)
  have cfg: "config m3 = config m" "exit_count m3 = exit_count m"
    "poll_count m3 = poll_count m + 1"
    by (simp_all add: m3_def)
  show ?thesis
  proof (cases "1 \<le> ratio")
    case True
    obtain m4 w4 where te:
      "trigger_exit K m3 ps tot (logger CRITICAL (ThresholdBreached tot (int (length ps))) w2) = (m4, w4)"
      by (cases "trigger_exit K m3 ps tot (logger CRITICAL (ThresholdBreached tot (int (length ps))) w2)")
    have pp: "poll_positions K m w = (None, m4, w4)"
      using assms(2,3,4) lr True te m3'
      by (simp add: poll_positions_def Let_def tot_def [symmetric] cfg)
    from trigger_exit_fields [OF te] have "exit_count m4 = exit_count m + 1"
      by (simp add: cfg)
    with pp te True lr show ?thesis
      by (simp add: Let_def tot_def [symmetric] ratio_def [symmetric] m3_def [symmetric])
  next
    case False
    have pp: "poll_positions K m w =
        (None, m3,
         let w3 = (if ratio \<ge> 8 / 10 then
                     logger WARNING (Approaching tot ratio (int (length ps))) w2
                   else if ratio \<ge> 5 / 10 then
                     logger WARNING (Elevated tot ratio (int (length ps))) w2
                   else logger INFO (Normal tot (int (length ps))) w2)
         in if poll_count m3 mod 30 = 0
            then logger INFO (PositionsSummary ps tot) w3 else w3)"
      using assms(2,3,4) lr False m3'
      by (simp add: poll_positions_def Let_def tot_def [symmetric] cfg)
    show ?thesis
      using False lr
      by (simp add: pp Let_def tot_def [symmetric] ratio_def [symmetric] m3_def [symmetric]
          logger_def emit_def cfg)
  qed
qed


theorem threshold_bands_witness:
  "(case poll_positions scripted (sample_monitor 10000 False)
          (world0 (quiet\<lparr>positions_script :=
             [Inr (snapshot [raw_entry ''X'' ''NFO'' 50 (-3000), raw_entry ''Y'' ''NFO'' (-25) (-2500)])],
             clock_script := [ten_am]\<rparr>)) of
      (r, m', w') \<Rightarrow> r = None \<and> exit_count m' = 0 \<and> last_pnl m' = Some (-5500) \<and>
        last (trace w') = Log WARNING (Elevated (-5500) (11 / 20) 2)) \<and>
   (case poll_positions scripted (sample_monitor 5000 True)
          (world0 (quiet\<lparr>positions_script :=
             [Inr (snapshot [raw_entry ''X'' ''NFO'' 50 (-3000), raw_entry ''Y'' ''NFO'' (-25) (-2500)])],
             clock_script := [ten_am]\<rparr>)) of
      (r, m', w') \<Rightarrow> r = None \<and> exit_count m' = 1)"
proof -
  let ?snap = "snapshot [raw_entry ''X'' ''NFO'' 50 (-3000), raw_entry ''Y'' ''NFO'' (-25) (-2500)]"
  let ?ps = "[sample_position ''X'' ''NFO'' 50 (-3000), sample_position ''Y'' ''NFO'' (-25) (-2500)]"
  let ?w = "world0 (quiet\<lparr>positions_script := [Inr ?snap], clock_script := [ten_am]\<rparr>)"
  let ?w1 = "\<lparr>env = quiet\<lparr>clock_script := [ten_am]\<rparr>, trace = [Positions (Inr ?snap)]\<rparr>"
  let ?w2 = "\<lparr>env = quiet, trace = [Positions (Inr ?snap), Now ten_am]\<rparr>"
  have pos: "0 < max_loss (config (sample_monitor th dr))" if "0 < th" for th dr
    using that by (simp add: sample_monitor_def new_monitor_def sample_config_def)
  have ex: "exchanges (config (sample_monitor th dr)) = [''NFO'', ''BFO'']" for th dr
    by (simp add: sample_monitor_def new_monitor_def sample_config_def)
  have g: "get_open_fno_positions scripted (exchanges (config (sample_monitor th dr))) ?w
             = (Inr ?ps, ?w1)" for th dr
    unfolding ex
    by (simp add: get_open_fno_positions_def fetch_positions_def parse_fno_positions_def
        scripted_def world0_def quiet_def emit_def snapshot_def sample_position_def
        is_open_make) (simp add: raw_entry_def dict_get_def is_open_make)
  have ne: "?ps \<noteq> []" by simp
  have n: "now scripted ?w1 = (ten_am, ?w2)"
    by (simp add: now_def scripted_def quiet_def emit_def)
  have tot: "calculate_total_pnl (float_round scripted) ?ps = -5500"
    by (simp add: calculate_total_pnl_def sample_position_def pnl_make scripted_def)
      (simp add: raw_entry_def dict_get_def)
  have ml: "max_loss (config (sample_monitor th dr)) = th"
    and xc: "exit_count (sample_monitor th dr) = 0"
    and pc: "poll_count (sample_monitor th dr) = 0" for th dr
    by (simp_all add: sample_monitor_def new_monitor_def sample_config_def)
  obtain ra ma wa where pa: "poll_positions scripted (sample_monitor 10000 False) ?w = (ra, ma, wa)"
    by (cases "poll_positions scripted (sample_monitor 10000 False) ?w")
  obtain rb mb wb where pb: "poll_positions scripted (sample_monitor 5000 True) ?w = (rb, mb, wb)"
    by (cases "poll_positions scripted (sample_monitor 5000 True) ?w")
  from threshold_bands [OF pos g ne n, of 10000 False]
  have a: "ra = None \<and> exit_count ma = 0 \<and> last_pnl ma = Some (-5500) \<and>
        last (trace wa) = Log WARNING (Elevated (-5500) (11 / 20) 2)"
    unfolding pa Let_def tot ml
    by (auto simp add: xc pc)
  from threshold_bands [OF pos g ne n, of 5000 True]
  have b: "rb = None \<and> exit_count mb = 1"
    unfolding pb Let_def tot ml
    by (simp add: xc pc)
  from a b show ?thesis
    unfolding pa pb by simp
qed

subsection \<open>Cooldown after an exit\<close>

text \<open>What one poll step does: it counts one poll and fetches the positions once.\<close>

lemma emit_fetch [simp]:
  "\<not> is_fetch ev \<Longrightarrow> filter is_fetch (trace (emit ev w)) = filter is_fetch (trace w)"
  by (simp add: emit_def)













subsection \<open>Errors during a poll\<close>

lemma poll_positions_error_fields:
  "poll_positions K m w = (Some e, m1, w1) \<Longrightarrow>
     stop_event m1 = stop_event m \<and> config m1 = config m"
  by (auto simp add: poll_positions_def Let_def split_beta split: sum.splits if_splits)

text \<open>
  Claim C9. Let a poll end with an exception \<open>e\<close> while the stop flag is not set. If the
  class name of \<open>e\<close> contains "Token" or its text, in lower case, contains "token", the
  poll step logs the error, sets the stop flag and makes no further broker call; the wait
  that follows returns at once and the loop ends at its next test, without another pass.
  For every other exception the poll step logs the error and a warning and waits twice
  for the poll interval. Let \<open>b1\<close> and \<open>b2\<close> be the answers of the environment to these two
  waits, in turn: whether the caller sets the stop event during the wait. Then the
  monitor is as the poll left it, with the stop flag equal to \<open>b1 \<or> b2\<close>: the handler
  itself never sets it. When the flag is not set, the loop goes on with its next pass.
\<close>

theorem poll_error_classification:
  assumes "\<not> stop_event m"
    and "poll_positions K m w = (Some e, m1, w1)"
  shows "(is_token_error e \<longrightarrow>
            (case poll_step K m w of
               (m', w') \<Rightarrow>
                 m' = m1\<lparr>stop_event := True\<rparr> \<and> env w' = env w1 \<and>
                 trace w' = trace w1 @ [Log ERROR (PollError e), Log ERROR AuthenticationError,
                                        WaitStop (poll_interval (config m)) True] \<and>
                 (\<forall>fuel. monitor_while (Suc fuel) K m' w' = Some (None, m', w')))) \<and>
         (\<not> is_token_error e \<longrightarrow>
            (case poll_step K m w of
               (m', w') \<Rightarrow>
                 (let i = poll_interval (config m);
                      b1 = fst (stop_requested K i (env w1));
                      e1 = snd (stop_requested K i (env w1));
                      b2 = fst (stop_requested K i e1);
                      e2 = snd (stop_requested K i e1)
                  in m' = m1\<lparr>stop_event := b1 \<or> b2\<rparr> \<and>
                     stop_event m' = (b1 \<or> b2) \<and>
                     env w' = (if b1 then e1 else e2) \<and>
                     trace w' = trace w1 @
                       [Log ERROR (PollError e),
                        Log WARNING (WillRetry (i * 2)),
                        WaitStop i b1,
                        WaitStop i (b1 \<or> b2)]) \<and>
                 (\<not> stop_event m' \<longrightarrow>
                    (\<forall>fuel. monitor_while (Suc fuel) K m' w' =
                       (case loop_body K m' w' of
                          (Next, m'', w'') \<Rightarrow> monitor_while fuel K m'' w''
                        | (Break, m'', w'') \<Rightarrow> Some (None, m'', w'')
                        | (Raised x, m'', w'') \<Rightarrow> Some (Some x, m'', w''))))))"
proof -
  from poll_positions_error_fields [OF assms(2)] assms(1)
  have f: "\<not> stop_event m1" "config m1 = config m" by simp_all
  have tok: "is_token_error e \<longrightarrow>
            (case poll_step K m w of
               (m', w') \<Rightarrow>
                 m' = m1\<lparr>stop_event := True\<rparr> \<and> env w' = env w1 \<and>
                 trace w' = trace w1 @ [Log ERROR (PollError e), Log ERROR AuthenticationError,
                                        WaitStop (poll_interval (config m)) True] \<and>
                 (\<forall>fuel. monitor_while (Suc fuel) K m' w' = Some (None, m', w')))"
    using f
    by (simp add: poll_step_def assms(2) handle_poll_error_def stop_event_wait_def
        logger_def emit_def)
  have other: "\<not> is_token_error e \<longrightarrow>
            (case poll_step K m w of
               (m', w') \<Rightarrow>
                 (let i = poll_interval (config m);
                      b1 = fst (stop_requested K i (env w1));
                      e1 = snd (stop_requested K i (env w1));
                      b2 = fst (stop_requested K i e1);
                      e2 = snd (stop_requested K i e1)
                  in m' = m1\<lparr>stop_event := b1 \<or> b2\<rparr> \<and>
                     stop_event m' = (b1 \<or> b2) \<and>
                     env w' = (if b1 then e1 else e2) \<and>
                     trace w' = trace w1 @
                       [Log ERROR (PollError e),
                        Log WARNING (WillRetry (i * 2)),
                        WaitStop i b1,
                        WaitStop i (b1 \<or> b2)]) \<and>
                 (\<not> stop_event m' \<longrightarrow>
                    (\<forall>fuel. monitor_while (Suc fuel) K m' w' =
                       (case loop_body K m' w' of
                          (Next, m'', w'') \<Rightarrow> monitor_while fuel K m'' w''
                        | (Break, m'', w'') \<Rightarrow> Some (None, m'', w'')
                        | (Raised x, m'', w'') \<Rightarrow> Some (Some x, m'', w'')))))"
    using f
    by (simp add: poll_step_def assms(2) handle_poll_error_def stop_event_wait_def
        logger_def emit_def split_beta Let_def)
  from tok other show ?thesis by blast
qed

theorem poll_error_classification_witness:
  "is_token_error (Exn ''TokenException'' ''Incorrect api_key or access_token'') \<and>
   stop_event (fst (poll_step scripted (sample_monitor 5000 False)
     (world0 (quiet\<lparr>positions_script :=
        [Inl (Exn ''TokenException'' ''Incorrect api_key or access_token'')]\<rparr>)))) \<and>
   \<not> is_token_error (Exn ''NetworkException'' ''Read timed out'') \<and>
   \<not> stop_event (fst (poll_step scripted (sample_monitor 5000 False)
     (world0 (quiet\<lparr>positions_script :=
        [Inl (Exn ''NetworkException'' ''Read timed out'')]\<rparr>)))) \<and>
   stop_event (fst (poll_step scripted (sample_monitor 5000 False)
     (world0 (quiet\<lparr>positions_script :=
        [Inl (Exn ''NetworkException'' ''Read timed out'')], stops_script := [False, True]\<rparr>))))"
proof -
  let ?m = "sample_monitor 5000 False"
  let ?tok = "Exn ''TokenException'' ''Incorrect api_key or access_token''"
  let ?net = "Exn ''NetworkException'' ''Read timed out''"
  let ?w2 = "world0 (quiet\<lparr>positions_script := [Inl ?net]\<rparr>)"
  let ?w3 = "world0 (quiet\<lparr>positions_script := [Inl ?net], stops_script := [False, True]\<rparr>)"
  have run: "\<not> stop_event ?m"
    by (simp add: sample_monitor_def new_monitor_def)
  have iv: "poll_interval (config ?m) = 10"
    by (simp add: sample_monitor_def new_monitor_def sample_config_def)
  have tok: "is_token_error ?tok" by code_simp
  have net: "\<not> is_token_error ?net" by code_simp
  have p1: "poll_positions scripted ?m (world0 (quiet\<lparr>positions_script := [Inl ?tok]\<rparr>))
              = (Some ?tok, ?m\<lparr>poll_count := 1\<rparr>, \<lparr>env = quiet, trace = [Positions (Inl ?tok)]\<rparr>)"
    by (simp add: poll_positions_def get_open_fno_positions_def fetch_positions_def Let_def
        scripted_def world0_def quiet_def emit_def sample_monitor_def new_monitor_def)
  have p2: "poll_positions scripted ?m ?w2
              = (Some ?net, ?m\<lparr>poll_count := 1\<rparr>, \<lparr>env = quiet, trace = [Positions (Inl ?net)]\<rparr>)"
    by (simp add: poll_positions_def get_open_fno_positions_def fetch_positions_def Let_def
        scripted_def world0_def quiet_def emit_def sample_monitor_def new_monitor_def)
  have p3: "poll_positions scripted ?m ?w3
              = (Some ?net, ?m\<lparr>poll_count := 1\<rparr>,
                 \<lparr>env = quiet\<lparr>stops_script := [False, True]\<rparr>, trace = [Positions (Inl ?net)]\<rparr>)"
    by (simp add: poll_positions_def get_open_fno_positions_def fetch_positions_def Let_def
        scripted_def world0_def quiet_def emit_def sample_monitor_def new_monitor_def)
  have q2: "stop_requested scripted 10 quiet = (False, quiet)"
    by (simp add: scripted_def quiet_def)
  have q3: "stop_requested scripted 10 (quiet\<lparr>stops_script := [False, True]\<rparr>)
              = (False, quiet\<lparr>stops_script := [True]\<rparr>)"
    "stop_requested scripted 10 (quiet\<lparr>stops_script := [True]\<rparr>) = (True, quiet)"
    by (simp_all add: scripted_def quiet_def)
  have s1: "stop_event (fst (poll_step scripted ?m (world0 (quiet\<lparr>positions_script := [Inl ?tok]\<rparr>))))"
    using poll_error_classification [OF run p1] tok
    by (simp add: split_beta)
  have s2: "\<not> stop_event (fst (poll_step scripted ?m ?w2))"
    using poll_error_classification [OF run p2] net
    by (simp add: split_beta Let_def iv q2)
  have s3: "stop_event (fst (poll_step scripted ?m ?w3))"
    using poll_error_classification [OF run p3] net
    by (simp add: split_beta Let_def iv q3)
  from tok s1 net s2 s3 show ?thesis by blast
qed

end
